theory Spec2Isabelle
  imports Complex_Main "HOL-Library.AList"
begin

section \<open>Values shared by the modules\<close>

text \<open>
  The relay talks to five outside services: the embedding and completion API, the
  \<open>cosine-similarity\<close> package, \<open>bcrypt\<close>, PostgreSQL and Redis. None of them is part of
  the repository, so each enters the model as a parameter of the function that calls it
  (\<open>getEmbedding\<close>, \<open>cosineSimilarity\<close>, \<open>compareSync\<close>, \<open>hashSync\<close>, \<open>axios\<close>,
  \<open>retrieve\<close>) or, for the two stores, as the value the store holds.

  A request to an outside service can be rejected; the rejection is the value \<open>Inl e\<close>
  of the result and travels up through every caller that does not catch it.
\<close>

datatype error =
    ProviderUnavailable   \<comment> \<open>a rejected request to the embedding or completion API\<close>
  | UniqueViolation       \<comment> \<open>PostgreSQL refusing a second row with the same primary key\<close>

text \<open>
  A JavaScript number as far as the comparison in \<open>similarity\<close> can tell: a finite value
  or \<open>NaN\<close>. Every ordering test against \<open>NaN\<close> is false.
\<close>

datatype js_number = Num real | NaN

fun js_gt :: "js_number \<Rightarrow> js_number \<Rightarrow> bool" where
  "js_gt (Num a) (Num b) = (a > b)"
| "js_gt _ _ = False"

text \<open>A text value that may also be \<open>undefined\<close> or \<open>null\<close>.\<close>

datatype js_text = Undefined | Null | Text string

section \<open>similarity.js\<close>

type_synonym vector = "real list"

definition threshold :: js_number where
  "threshold = Num 0.81"

text \<open>\<open>getSimilarity\<close> hands both vectors to the package and returns its score.\<close>

definition getSimilarity ::
  "(vector \<Rightarrow> vector \<Rightarrow> js_number) \<Rightarrow> vector \<Rightarrow> vector \<Rightarrow> js_number" where
  "getSimilarity cosineSimilarity string1 string2 =
     (let similarity = cosineSimilarity string1 string2 in similarity)"

text \<open>
  \<open>similarity\<close> embeds the query, then the value, and answers \<open>"yes"\<close> or \<open>"no"\<close>.
  A rejected embedding request rejects the whole call.
\<close>

definition similarity ::
  "(string \<Rightarrow> error + vector) \<Rightarrow> (vector \<Rightarrow> vector \<Rightarrow> js_number) \<Rightarrow>
   string \<Rightarrow> string \<Rightarrow> error + string" where
  "similarity getEmbedding cosineSimilarity query val =
     (case getEmbedding query of
        Inl e \<Rightarrow> Inl e
      | Inr embeddedQuery \<Rightarrow>
          (case getEmbedding val of
             Inl e \<Rightarrow> Inl e
           | Inr embeddedValue \<Rightarrow>
               (let score = getSimilarity cosineSimilarity embeddedQuery embeddedValue
                in if js_gt score threshold then Inr ''yes'' else Inr ''no'')))"

subsection \<open>The package behind \<open>cosineSimilarity\<close>\<close>

text \<open>
  Modelled from the spec: the function \<open>cosineSimilarity\<close> that \<open>similarity.js\<close> imports
  from the package \<open>cosine-similarity\<close>, of which there is no source under \<open>src/\<close>. The
  Similarity Evaluator "computes cosine similarity: \<open>dot(A,B) / (||A|| * ||B||)\<close>", and
  "degenerate zero-magnitude vectors must not cause a division fault; define similarity as 0
  (not equivalent) in that case". The division is carried out only when the product of the
  magnitudes is not zero.
\<close>

definition dot :: "vector \<Rightarrow> vector \<Rightarrow> real" where
  "dot a b = sum_list (map (\<lambda>(x, y). x * y) (zip a b))"

definition magnitude :: "vector \<Rightarrow> real" where
  "magnitude a = sqrt (sum_list (map (\<lambda>x. x * x) a))"

definition spec_cosineSimilarity :: "vector \<Rightarrow> vector \<Rightarrow> js_number" where
  "spec_cosineSimilarity a b =
     (if magnitude a * magnitude b = 0 then Num 0
      else Num (dot a b / (magnitude a * magnitude b)))"

section \<open>database.js\<close>

subsection \<open>The user table\<close>

text \<open>
  A row of the table \<open>user\<close> as the query of \<open>checkDatabase\<close> selects it: the primary key
  under the name \<open>ID\<close> and the nullable column \<open>thread_id\<close>. The table is the list of its
  rows in the order the query returns them.
\<close>

record user_row =
  ID :: string
  thread_id :: "string option"

text \<open>The object \<open>{found, thread_id}\<close> that \<open>checkDatabase\<close> returns.\<close>

record db_result =
  db_found :: bool
  db_thread_id :: js_text

text \<open>
  The \<open>for\<close> loop of \<open>checkDatabase\<close>: \<open>found\<close> is overwritten by every comparison and the
  loop is left at the first comparison that succeeds.
\<close>

fun checkDatabase_loop ::
  "(string \<Rightarrow> string \<Rightarrow> bool) \<Rightarrow> string \<Rightarrow> user_row list \<Rightarrow> bool \<Rightarrow> bool" where
  "checkDatabase_loop compareSync target [] found = found"
| "checkDatabase_loop compareSync target (u # users) found =
     (let hash = ID u;
          found' = compareSync target hash
      in if found' = True then found'
         else checkDatabase_loop compareSync target users found')"

definition checkDatabase ::
  "(string \<Rightarrow> string \<Rightarrow> bool) \<Rightarrow> string \<Rightarrow> user_row list \<Rightarrow> db_result" where
  "checkDatabase compareSync target users =
     (let thread_id0 = Undefined;
          found0 = False;
          found1 = checkDatabase_loop compareSync target users found0
      in \<lparr>db_found = found1, db_thread_id = thread_id0\<rparr>)"

text \<open>
  \<open>updateDatabase\<close> inserts one row. The column \<open>id\<close> is the primary key
  (\<open>src/schema.js\<close>), so an insert whose key is already present is refused.
\<close>

definition updateDatabase ::
  "user_row list \<Rightarrow> string \<Rightarrow> string \<Rightarrow> error + user_row list" where
  "updateDatabase users user_id user_thread_id =
     (if user_id \<in> ID ` set users then Inl UniqueViolation
      else Inr (users @ [\<lparr>ID = user_id, thread_id = Some user_thread_id\<rparr>]))"

subsection \<open>The Redis store\<close>

text \<open>
  Redis holds one value per key. The store is the list of its (key, value) pairs in the
  order in which \<open>KEYS *\<close> lists the keys; \<open>SET\<close> on a key that exists replaces the value
  in place, \<open>SET\<close> on a new key adds a pair, \<open>GET\<close> on a missing key answers \<open>null\<close>
  (\<open>None\<close>).
\<close>

type_synonym redis = "(string \<times> string) list"

definition redis_keys :: "redis \<Rightarrow> string list" where
  "redis_keys store = map fst store"

definition redis_get :: "redis \<Rightarrow> string \<Rightarrow> string option" where
  "redis_get store key = map_of store key"

definition redis_set :: "redis \<Rightarrow> string \<Rightarrow> string \<Rightarrow> redis" where
  "redis_set store key v = AList.update key v store"

text \<open>The object \<open>{found, response}\<close> that \<open>checkCache\<close> returns.\<close>

record cache_result =
  cache_found :: bool
  cache_response :: "string option"

text \<open>
  The \<open>for\<close> loop of \<open>checkCache\<close> over the keys: at the first key that \<open>similarity\<close>
  answers \<open>"yes"\<close> for, \<open>found\<close> is set, \<open>response\<close> is read from the store and the loop is
  left. \<open>checkCache\<close> catches nothing, so a rejected \<open>similarity\<close> call ends it.
\<close>

fun checkCache_loop ::
  "(string \<Rightarrow> string \<Rightarrow> error + string) \<Rightarrow> redis \<Rightarrow> string \<Rightarrow> string list \<Rightarrow>
   cache_result \<Rightarrow> error + cache_result" where
  "checkCache_loop sim store query [] r = Inr r"
| "checkCache_loop sim store query (key # keys) r =
     (case sim query key of
        Inl e \<Rightarrow> Inl e
      | Inr check \<Rightarrow>
          if check = ''yes''
          then Inr (r\<lparr>cache_found := True, cache_response := redis_get store key\<rparr>)
          else checkCache_loop sim store query keys r)"

definition checkCache ::
  "(string \<Rightarrow> error + vector) \<Rightarrow> (vector \<Rightarrow> vector \<Rightarrow> js_number) \<Rightarrow>
   redis \<Rightarrow> string \<Rightarrow> error + cache_result" where
  "checkCache getEmbedding cosineSimilarity store query =
     (let r0 = \<lparr>cache_found = False, cache_response = Some ''error''\<rparr>;
          keys = redis_keys store
      in checkCache_loop (similarity getEmbedding cosineSimilarity) store query keys r0)"

text \<open>
  \<open>updateCache\<close> sets the key \<open>query\<close> to \<open>response\<close>. A failure of the Redis client
  (\<open>set_ok = False\<close>) is caught: one line is printed and the store stays as it was. The
  result is the store and the lines printed.
\<close>

definition updateCache ::
  "bool \<Rightarrow> redis \<Rightarrow> string \<Rightarrow> string \<Rightarrow> redis \<times> string list" where
  "updateCache set_ok store query resp =
     (if set_ok then (redis_set store query resp, [])
      else (store, [''MINOR ERROR UPDATING CACHE!'']))"

section \<open>main.js\<close>

definition saltRounds :: nat where
  "saltRounds = 10"

subsection \<open>The process and its surroundings\<close>

text \<open>
  What a turn can change: the user table, the Redis store, the requests handed to the
  messaging API (recipient and body, in order), the lines printed on the console, and
  whether \<open>process.exit()\<close> has been called. A process that has exited does nothing
  more.
\<close>

record world =
  users :: "user_row list"
  cache :: redis
  outbox :: "(string \<times> string) list"
  console :: "string list"
  exited :: bool

text \<open>
  The error object that \<open>axios\<close> rejects with. Its field \<open>response\<close> holds the HTTP status
  of the answer when the server answered with an error status, and is \<open>undefined\<close>
  (\<open>None\<close>) when no answer arrived at all.
\<close>

datatype axios_error = AxiosError (error_response: "nat option")

text \<open>
  The services that \<open>main.js\<close> calls:
  \<^item> \<open>bcrypt_compareSync target hash\<close> and \<open>bcrypt_hashSync data rounds salt\<close>, where \<open>salt\<close>
    is the salt that this call of \<open>hashSync\<close> generates;
  \<^item> \<open>fs_readFile path\<close>, the text of the file or \<open>None\<close> when reading fails;
  \<^item> \<open>axios_post phone_number_id to body\<close>, \<open>None\<close> when the request is accepted and the
    error object when it is rejected;
  \<^item> \<open>threads_create\<close>, the id of the thread that the completion API creates;
  \<^item> \<open>runs_retrieve k\<close>, the answer to the \<open>k\<close>-th retrieval of the run: its status, or a
    rejection;
  \<^item> \<open>messages_list\<close>, the text of the newest message of the thread;
  \<^item> \<open>redis_up\<close>, whether the Redis client can write;
  \<^item> \<open>utc_now\<close>, the clock as \<open>toUTCString\<close> prints it.
  The requests that retrieve the assistant, add the message, start the run and list the
  messages are taken to succeed; the analytics calls change nothing of the world above and
  are left out.
\<close>

record services =
  bcrypt_compareSync :: "string \<Rightarrow> string \<Rightarrow> bool"
  bcrypt_hashSync :: "string \<Rightarrow> nat \<Rightarrow> string \<Rightarrow> string"
  fs_readFile :: "string \<Rightarrow> string option"
  axios_post :: "string \<Rightarrow> string \<Rightarrow> string \<Rightarrow> axios_error option"
  threads_create :: string
  runs_retrieve :: "nat \<Rightarrow> error + string"
  messages_list :: string
  redis_up :: bool
  utc_now :: string

subsection \<open>sendMessage\<close>

text \<open>
  The request is issued; when it is rejected, the handler looks at \<open>error.response\<close>
  only: with a response it prints one line and calls \<open>process.exit()\<close>, without one it
  does nothing. The parameter that the source calls \<open>from\<close> is written \<open>sender\<close> here, and
  \<open>value\<close> in \<open>similarity\<close> is written \<open>val\<close>.
\<close>

definition sendMessage ::
  "services \<Rightarrow> string \<Rightarrow> string \<Rightarrow> string \<Rightarrow> string \<Rightarrow> string \<Rightarrow> world \<Rightarrow> world" where
  "sendMessage sv user_number_id phone_number_id user_question sender message w =
     (let w1 = w\<lparr>outbox := outbox w @ [(sender, message)]\<rparr>
      in case axios_post sv phone_number_id sender message of
           None \<Rightarrow> w1
         | Some err \<Rightarrow>
             if error_response err \<noteq> None
             then w1\<lparr>console := console w1 @
                    [''ERROR: Error occured while sending users message. Check WhatsApp number and API access token!''],
                    exited := True\<rparr>
             else w1)"

text \<open>
  Inside a turn the two parts of \<open>sendMessage\<close> happen at different times, because no
  caller awaits it: \<open>issue\<close> is the request, made at the call; \<open>settle\<close> is the handler of
  its rejection, which runs when the answer of the messaging API has arrived. The source
  fixes no order between that arrival and the further steps of the turn. The order taken
  here: the requests of a turn are settled, in the order they were issued, when the turn's
  own steps have run; the first handler that calls \<open>process.exit()\<close> ends the process, and
  the requests after it are never settled.
\<close>

definition issue :: "string \<Rightarrow> string \<Rightarrow> world \<Rightarrow> world" where
  "issue sender message w = w\<lparr>outbox := outbox w @ [(sender, message)]\<rparr>"

definition settle :: "services \<Rightarrow> string \<Rightarrow> string \<times> string \<Rightarrow> world \<Rightarrow> world" where
  "settle sv phone_number_id request w =
     (case axios_post sv phone_number_id (fst request) (snd request) of
        None \<Rightarrow> w
      | Some err \<Rightarrow>
          if error_response err \<noteq> None
          then w\<lparr>console := console w @
                 [''ERROR: Error occured while sending users message. Check WhatsApp number and API access token!''],
                 exited := True\<rparr>
          else w)"

fun settle_all :: "services \<Rightarrow> string \<Rightarrow> (string \<times> string) list \<Rightarrow> world \<Rightarrow> world" where
  "settle_all sv phone_number_id [] w = w"
| "settle_all sv phone_number_id (request # requests) w =
     (if exited w then w
      else settle_all sv phone_number_id requests (settle sv phone_number_id request w))"

text \<open>
  \<open>settle_turn\<close> settles what a turn has issued: the requests that the outbox \<open>w'\<close> holds
  beyond those of the world \<open>w\<close> the turn started from.
\<close>

definition settle_turn :: "services \<Rightarrow> string \<Rightarrow> world \<Rightarrow> world \<Rightarrow> world" where
  "settle_turn sv phone_number_id w w' =
     settle_all sv phone_number_id (drop (length (outbox w)) (outbox w')) w'"

subsection \<open>chatbot\<close>

text \<open>
  The two nested \<open>readFile\<close> callbacks of the branch for a new user: the notice, then
  the instructions; a file that cannot be read prints the error and sends nothing more.
  The callbacks run once the files have been read; their effect is placed at the call.
\<close>

definition onboarding ::
  "services \<Rightarrow> string \<Rightarrow> string \<Rightarrow> string \<Rightarrow> string \<Rightarrow> world \<Rightarrow> world" where
  "onboarding sv user_number_id phone_number_id user_question sender w =
     (case fs_readFile sv ''./GDPR.txt'' of
        None \<Rightarrow> w\<lparr>console := console w @ [''readFile: ./GDPR.txt'']\<rparr>
      | Some data \<Rightarrow>
          (let w1 = issue sender data w
           in case fs_readFile sv ''./how-to-use.txt'' of
                None \<Rightarrow> w1\<lparr>console := console w1 @ [''readFile: ./how-to-use.txt'']\<rparr>
              | Some data2 \<Rightarrow> issue sender data2 w1))"

text \<open>
  The first half of \<open>chatbot\<close>, up to the thread: look the sender up, hash the
  identifier, and for an unknown sender send the onboarding texts and insert the row.
  The result is the world, and either the rejection that ends the turn or
  \<open>(found, user_number_id, thread.id)\<close>.
\<close>

definition chatbot_identity ::
  "services \<Rightarrow> string \<Rightarrow> string \<Rightarrow> string \<Rightarrow> string \<Rightarrow> string \<Rightarrow> world \<Rightarrow>
   world \<times> (error + bool \<times> string \<times> string)" where
  "chatbot_identity sv salt user_number_id phone_number_id user_question sender w =
     (let result = checkDatabase (bcrypt_compareSync sv) user_number_id (users w);
          hashed_id = bcrypt_hashSync sv user_number_id saltRounds salt;
          found = db_found result
      in if found then (w, Inr (found, hashed_id, threads_create sv))
         else
           (let w1 = onboarding sv hashed_id phone_number_id user_question sender w
            in case updateDatabase (users w1) hashed_id (threads_create sv) of
                 Inl e \<Rightarrow> (w1, Inl e)
               | Inr us \<Rightarrow> (w1\<lparr>users := us\<rparr>, Inr (found, hashed_id, threads_create sv))))"

text \<open>
  The polling loop: retrieval \<open>k\<close> is looked at; any status other than \<open>"completed"\<close>
  leads to retrieval \<open>k + 1\<close>. The result is the number of the retrieval that ended the
  loop, or the rejection that did; \<open>None\<close> is a loop that never ends.
\<close>

partial_function (option) chatbot_poll :: "(nat \<Rightarrow> error + string) \<Rightarrow> nat \<Rightarrow> (error + nat) option" where
  "chatbot_poll retrieve k =
     (case retrieve k of
        Inl e \<Rightarrow> Some (Inl e)
      | Inr status \<Rightarrow>
          if status \<noteq> ''completed'' then chatbot_poll retrieve (Suc k) else Some (Inr k))"

text \<open>
  The second half of \<open>chatbot\<close>, the branch \<open>if (!queryExists)\<close>: wait for the run, send
  the answer, store it in the cache. \<open>None\<close> is a turn that never leaves the loop. A
  rejected retrieval leaves the branch at once, for the \<open>catch\<close> of \<open>chatbot\<close>.
\<close>

definition chatbot_completion ::
  "services \<Rightarrow> string \<Rightarrow> string \<Rightarrow> string \<Rightarrow> string \<Rightarrow> bool \<Rightarrow> world \<Rightarrow>
   (world \<times> error option) option" where
  "chatbot_completion sv user_number_id phone_number_id user_question sender queryExists w =
     (if \<not> queryExists then
        (case chatbot_poll (runs_retrieve sv) 0 of
           None \<Rightarrow> None
         | Some (Inl e) \<Rightarrow> Some (w, Some e)
         | Some (Inr k) \<Rightarrow>
             (let chatbot_response = messages_list sv;
                  w1 = issue sender chatbot_response w;
                  (store, printed) = updateCache (redis_up sv) (cache w1) user_question
                         chatbot_response
              in Some (w1\<lparr>cache := store, console := console w1 @ printed\<rparr>, None)))
      else Some (w, None))"

text \<open>The line that \<open>log\<close> (\<open>logging.js\<close>) prints for a logbook.\<close>

definition logbook_line :: "string \<Rightarrow> bool \<Rightarrow> string \<Rightarrow> bool \<Rightarrow> string \<Rightarrow> string \<Rightarrow> string" where
  "logbook_line datetime query_exists query_message user_exists user_id thread =
     ''Date & Time: '' @ datetime @
     (if user_exists = True
      then '' - Existing User (ID: '' @ user_id @ '', Thread ID: '' @ thread @ '')''
      else '' - New User (ID: '' @ user_id @ '', Thread ID: '' @ thread @ '')'') @
     (if query_exists = True
      then '' - Asked Cached Query: '' @ query_message
      else '' - Asked New Query: '' @ query_message)"

fun error_text :: "error \<Rightarrow> string" where
  "error_text ProviderUnavailable = ''ProviderUnavailable''"
| "error_text UniqueViolation = ''UniqueViolation''"

text \<open>
  The whole of \<open>chatbot\<close>: both halves, the log line, and the \<open>catch\<close> that prints any
  rejection and ends the turn; then the requests of the turn are settled. A process that
  has exited runs no turn.
\<close>

definition chatbot ::
  "services \<Rightarrow> string \<Rightarrow> string \<Rightarrow> string \<Rightarrow> string \<Rightarrow> string \<Rightarrow> bool \<Rightarrow> world \<Rightarrow>
   world option" where
  "chatbot sv salt user_number_id phone_number_id user_question sender queryExists w =
     (if exited w then Some w
      else
        (case chatbot_identity sv salt user_number_id phone_number_id user_question sender w of
           (w1, Inl e) \<Rightarrow>
             Some (settle_turn sv phone_number_id w
                     (w1\<lparr>console := console w1 @ [error_text e]\<rparr>))
         | (w1, Inr (found, hashed_id, thread)) \<Rightarrow>
             (case chatbot_completion sv hashed_id phone_number_id user_question sender
                     queryExists w1 of
                None \<Rightarrow> None
              | Some (w2, Some e) \<Rightarrow>
                  Some (settle_turn sv phone_number_id w
                          (w2\<lparr>console := console w2 @ [error_text e]\<rparr>))
              | Some (w2, None) \<Rightarrow>
                  Some (settle_turn sv phone_number_id w
                          (w2\<lparr>console := console w2 @
                             [logbook_line (utc_now sv) queryExists user_question found
                                hashed_id thread]\<rparr>)))))"

subsection \<open>The verification handshake, \<open>GET /webhook\<close>\<close>

text \<open>
  A query parameter as the framework hands it over: missing (\<open>undefined\<close>), a string, or
  an array or object built by the query parser. \<open>truthy\<close> is the test that \<open>&&\<close> applies;
  \<open>strict_eq\<close> is \<open>===\<close> against the environment variable, which is a string or
  \<open>undefined\<close>.
\<close>

datatype query_param = Absent | Str string | Structured

fun truthy :: "query_param \<Rightarrow> bool" where
  "truthy Absent = False"
| "truthy (Str s) = (s \<noteq> [])"
| "truthy Structured = True"

fun strict_eq :: "query_param \<Rightarrow> string option \<Rightarrow> bool" where
  "strict_eq Absent None = True"
| "strict_eq (Str s) (Some v) = (s = v)"
| "strict_eq _ _ = False"

text \<open>
  A response is \<open>res.status(n).send(value)\<close> or \<open>res.sendStatus(n)\<close>. The handler returns
  the response it sent, \<open>None\<close> when it sent none, and the lines it printed.
\<close>

datatype http_response = Send nat query_param | SendStatus nat

definition webhook_get ::
  "string option \<Rightarrow> query_param \<Rightarrow> query_param \<Rightarrow> query_param \<Rightarrow>
   http_response option \<times> string list" where
  "webhook_get verify_token mode token challenge =
     (if truthy mode \<and> truthy token then
        (if mode = Str ''subscribe'' \<and> strict_eq token verify_token
         then (Some (Send 200 challenge), [''WEBHOOK_VERIFIED''])
         else (Some (SendStatus 403), []))
      else (None, []))"

section \<open>Vocabulary for the polling loop\<close>





section \<open>Example surroundings\<close>

text \<open>
  Concrete stand-ins for the outside services, used to run the functions above on
  explicit inputs. \<open>demo_hashSync\<close> and \<open>demo_compareSync\<close> keep the one property of
  \<open>bcrypt\<close> that the relay relies on: a hash verifies against the data it was made from,
  whatever the salt. \<open>demo_getEmbedding\<close> and \<open>demo_cosine\<close> make two texts similar
  exactly when they have the same length.
\<close>

definition demo_hashSync :: "string \<Rightarrow> nat \<Rightarrow> string \<Rightarrow> string" where
  "demo_hashSync data rounds salt = data @ ''$'' @ salt"

definition demo_compareSync :: "string \<Rightarrow> string \<Rightarrow> bool" where
  "demo_compareSync target hash = (take (Suc (length target)) hash = target @ ''$'')"

text \<open>
  \<open>bcrypt\<close> reads no more than the first 72 bytes of its input. \<open>long_hashSync\<close> and
  \<open>long_compareSync\<close> are stand-ins that keep this limit as well.
\<close>

definition long_hashSync :: "string \<Rightarrow> nat \<Rightarrow> string \<Rightarrow> string" where
  "long_hashSync data rounds salt = take 72 data @ ''$'' @ salt"

definition long_compareSync :: "string \<Rightarrow> string \<Rightarrow> bool" where
  "long_compareSync target hash =
     (take (Suc (length (take 72 target))) hash = take 72 target @ ''$'')"

definition demo_getEmbedding :: "string \<Rightarrow> error + vector" where
  "demo_getEmbedding input = Inr [real (length input)]"

definition demo_cosine :: "vector \<Rightarrow> vector \<Rightarrow> js_number" where
  "demo_cosine a b = (if a = b then Num 1 else Num 0)"

definition always_pending :: "nat \<Rightarrow> error + string" where
  "always_pending k = Inr ''in_progress''"


definition demo_services :: "axios_error option \<Rightarrow> (nat \<Rightarrow> error + string) \<Rightarrow> services" where
  "demo_services outcome retrieve =
     \<lparr>bcrypt_compareSync = demo_compareSync,
      bcrypt_hashSync = demo_hashSync,
      fs_readFile = (\<lambda>path. Some path),
      axios_post = (\<lambda>phone_number_id recipient body. outcome),
      threads_create = ''thread_1'',
      runs_retrieve = retrieve,
      messages_list = ''Paris'',
      redis_up = True,
      utc_now = ''Mon, 02 Nov 2026 09:00:00 GMT''\<rparr>"

definition empty_world :: world where
  "empty_world = \<lparr>users = [], cache = [], outbox = [], console = [], exited = False\<rparr>"

section \<open>Lemmas\<close>

subsection \<open>The scan of the user table\<close>

lemma checkDatabase_loop_eq:
  "checkDatabase_loop compareSync target us f =
     ((\<exists>u \<in> set us. compareSync target (ID u)) \<or> (us = [] \<and> f))"
  by (induction us arbitrary: f) (auto simp: Let_def)

lemma checkDatabase_found:
  "db_found (checkDatabase compareSync target us) = (\<exists>u \<in> set us. compareSync target (ID u))"
  by (simp add: checkDatabase_def checkDatabase_loop_eq)

lemma checkDatabase_thread_id:
  "db_thread_id (checkDatabase compareSync target us) = Undefined"
  by (simp add: checkDatabase_def)

lemma checkDatabase_found_append:
  "db_found (checkDatabase compareSync target (us @ [u]))
     = (db_found (checkDatabase compareSync target us) \<or> compareSync target (ID u))"
  by (auto simp: checkDatabase_found)

subsection \<open>The scan of the cache\<close>

lemma checkCache_loop_miss:
  "\<forall>k \<in> set keys. sim query k = Inr ''no'' \<Longrightarrow> checkCache_loop sim store query keys r = Inr r"
  by (induction keys) auto

lemma checkCache_loop_hit:
  "\<forall>k \<in> set pre. sim query k = Inr ''no'' \<Longrightarrow> sim query key = Inr ''yes'' \<Longrightarrow>
   checkCache_loop sim store query (pre @ key # post) r
     = Inr (r\<lparr>cache_found := True, cache_response := redis_get store key\<rparr>)"
  by (induction pre) auto

lemma redis_get_key:
  "key \<in> set (redis_keys store) \<Longrightarrow> \<exists>v. (key, v) \<in> set store \<and> redis_get store key = Some v"
  unfolding redis_keys_def redis_get_def
  by (induction store) auto

lemma redis_get_set:
  "redis_get (redis_set store key v) k = (if k = key then Some v else redis_get store k)"
  by (simp add: redis_get_def redis_set_def update_conv')

lemma redis_keys_set:
  "redis_keys (redis_set store key v) =
     (if key \<in> set (redis_keys store) then redis_keys store else redis_keys store @ [key])"
  by (simp add: redis_keys_def redis_set_def update_keys)

lemma demo_similarity:
  "similarity demo_getEmbedding demo_cosine a b
     = (if length a = length b then Inr ''yes'' else Inr ''no'')"
  by (simp add: similarity_def demo_getEmbedding_def demo_cosine_def getSimilarity_def
      threshold_def)

text \<open>A score that is \<open>NaN\<close> is answered with \<open>"no"\<close>: the comparison is false.\<close>

lemma similarity_NaN:
  assumes "getEmbedding query = Inr a" and "getEmbedding val = Inr b"
    and "cosineSimilarity a b = NaN"
  shows "similarity getEmbedding cosineSimilarity query val = Inr ''no''"
  using assms by (simp add: similarity_def getSimilarity_def threshold_def)

subsection \<open>The two parts of \<open>sendMessage\<close>\<close>

lemma sendMessage_issue_settle:
  "sendMessage sv u p q sender m w = settle sv p (sender, m) (issue sender m w)"
  by (simp add: sendMessage_def settle_def issue_def Let_def split: option.splits)

lemma settle_all_exited: "exited w \<Longrightarrow> settle_all sv p rs w = w"
  by (cases rs) simp_all

subsection \<open>The polling loop\<close>















subsection \<open>The two halves of \<open>chatbot\<close>\<close>





text \<open>
  A turn for a new sender whose query is cached, with every delivery rejected with the
  status 401: the turn's own steps run (the row, the log line), then the first delivery is
  settled, which prints the error and ends the process; the second is never settled.
\<close>

lemma chatbot_rejected_delivery:
  "chatbot (demo_services (Some (AxiosError (Some 401))) always_pending) ''Nq1'' ''353861234567''
     ''106540352242922'' ''capital of France?'' ''353861234567'' True empty_world =
   Some \<lparr>users = [\<lparr>ID = ''353861234567$Nq1'', thread_id = Some ''thread_1''\<rparr>], cache = [],
     outbox = [(''353861234567'', ''./GDPR.txt''), (''353861234567'', ''./how-to-use.txt'')],
     console = [''Date & Time: Mon, 02 Nov 2026 09:00:00 GMT - New User (ID: 353861234567$Nq1, Thread ID: thread_1) - Asked Cached Query: capital of France?'',
       ''ERROR: Error occured while sending users message. Check WhatsApp number and API access token!''],
     exited = True\<rparr>"
  by (simp add: chatbot_def chatbot_identity_def chatbot_completion_def checkDatabase_def
      updateDatabase_def onboarding_def issue_def settle_turn_def settle_def
      demo_services_def empty_world_def Let_def demo_hashSync_def logbook_line_def saltRounds_def)

lemma demo_verify: "demo_compareSync d (demo_hashSync d rounds s)"
  by (simp add: demo_compareSync_def demo_hashSync_def)

section \<open>Claims\<close>

subsection \<open>C1: what \<open>checkDatabase\<close> returns for a known sender\<close>

text \<open>
  Claim C1 asks that a lookup which finds the sender returns the thread handle of the
  matching row. \<open>checkDatabase\<close> selects the column and declares the variable, but no
  statement of the loop assigns it: on a table whose only row matches the identifier and
  holds the thread \<open>thread_abc\<close>, the result is \<open>found = true\<close> with \<open>thread_id\<close> still
  \<open>undefined\<close>.
\<close>

theorem checkDatabase_found_without_thread:
  "checkDatabase demo_compareSync ''353861234567''
     [\<lparr>ID = demo_hashSync ''353861234567'' saltRounds ''Nq1'', thread_id = Some ''thread_abc''\<rparr>]
   = \<lparr>db_found = True, db_thread_id = Undefined\<rparr>"
  by (simp add: checkDatabase_def demo_compareSync_def demo_hashSync_def)

subsection \<open>C2: the cache lookup\<close>

text \<open>
  Claim C2, the miss: on a store without entries \<open>checkCache\<close> reports \<open>found = false\<close>,
  and the response it returns with it is the five-letter text \<open>error\<close>, not an empty one.
\<close>

theorem checkCache_miss_counterexample:
  "checkCache demo_getEmbedding demo_cosine [] ''hello''
     = Inr \<lparr>cache_found = False, cache_response = Some ''error''\<rparr>"
  by (simp add: checkCache_def redis_keys_def)

text \<open>
  Claim C2 as the code has it. The keys are scanned in the order \<open>KEYS *\<close> lists them.
  If the keys before \<open>key\<close> are all answered \<open>"no"\<close> and \<open>key\<close> is answered \<open>"yes"\<close>, the
  lookup stops there whatever the later keys are: it returns \<open>found = true\<close> and the value
  stored under \<open>key\<close>, which exists. If every key is answered \<open>"no"\<close>, it returns
  \<open>found = false\<close> and the response \<open>"error"\<close>.
\<close>

theorem checkCache_first_match:
  "(redis_keys store = pre @ key # post \<and>
    (\<forall>k \<in> set pre. similarity getEmbedding cosineSimilarity query k = Inr ''no'') \<and>
    similarity getEmbedding cosineSimilarity query key = Inr ''yes''
    \<longrightarrow> checkCache getEmbedding cosineSimilarity store query
          = Inr \<lparr>cache_found = True, cache_response = redis_get store key\<rparr>
        \<and> (\<exists>v. (key, v) \<in> set store \<and> redis_get store key = Some v))
   \<and>
   ((\<forall>k \<in> set (redis_keys store). similarity getEmbedding cosineSimilarity query k = Inr ''no'')
    \<longrightarrow> checkCache getEmbedding cosineSimilarity store query
          = Inr \<lparr>cache_found = False, cache_response = Some ''error''\<rparr>)"
proof (intro conjI impI)
  assume h: "redis_keys store = pre @ key # post \<and>
    (\<forall>k \<in> set pre. similarity getEmbedding cosineSimilarity query k = Inr ''no'') \<and>
    similarity getEmbedding cosineSimilarity query key = Inr ''yes''"
  then show "checkCache getEmbedding cosineSimilarity store query
          = Inr \<lparr>cache_found = True, cache_response = redis_get store key\<rparr>"
    by (simp add: checkCache_def checkCache_loop_hit)
  from h have "key \<in> set (redis_keys store)" by simp
  then show "\<exists>v. (key, v) \<in> set store \<and> redis_get store key = Some v"
    by (rule redis_get_key)
next
  assume "\<forall>k \<in> set (redis_keys store). similarity getEmbedding cosineSimilarity query k = Inr ''no''"
  then show "checkCache getEmbedding cosineSimilarity store query
          = Inr \<lparr>cache_found = False, cache_response = Some ''error''\<rparr>"
    by (simp add: checkCache_def checkCache_loop_miss)
qed

text \<open>
  Both cases on explicit stores: with the entries \<open>hi\<close>, \<open>abc\<close>, \<open>xyz\<close> the query \<open>foo\<close>
  skips \<open>hi\<close> and is answered from \<open>abc\<close>, although \<open>xyz\<close> would match as well; with the
  entry \<open>hi\<close> alone it misses.
\<close>

theorem checkCache_first_match_witness:
  "(redis_keys [(''hi'', ''r1''), (''abc'', ''r2''), (''xyz'', ''r3'')] = [''hi''] @ ''abc'' # [''xyz''] \<and>
    similarity demo_getEmbedding demo_cosine ''foo'' ''hi'' = Inr ''no'' \<and>
    similarity demo_getEmbedding demo_cosine ''foo'' ''abc'' = Inr ''yes'' \<and>
    checkCache demo_getEmbedding demo_cosine [(''hi'', ''r1''), (''abc'', ''r2''), (''xyz'', ''r3'')] ''foo''
      = Inr \<lparr>cache_found = True, cache_response = Some ''r2''\<rparr>)
   \<and>
   (redis_keys [(''hi'', ''r1'')] = [''hi''] \<and>
    checkCache demo_getEmbedding demo_cosine [(''hi'', ''r1'')] ''foo''
      = Inr \<lparr>cache_found = False, cache_response = Some ''error''\<rparr>)"
  using checkCache_first_match [of "[(''hi'', ''r1''), (''abc'', ''r2''), (''xyz'', ''r3'')]" "[''hi'']" "''abc''" "[''xyz'']"
          demo_getEmbedding demo_cosine "''foo''"]
        checkCache_first_match [of "[(''hi'', ''r1'')]" "[]" "''hi''" "[]" demo_getEmbedding demo_cosine "''foo''"]
  by (simp add: demo_similarity redis_keys_def redis_get_def)

subsection \<open>C4: the threshold\<close>

text \<open>
  Claim C4: when both embeddings arrive and the package returns the score \<open>s\<close>,
  \<open>similarity\<close> answers \<open>"yes"\<close> exactly when \<open>s > 0.81\<close> and \<open>"no"\<close> exactly when
  \<open>s \<le> 0.81\<close>; a score of exactly \<open>0.81\<close> is answered \<open>"no"\<close>.
\<close>

theorem similarity_threshold:
  assumes "getEmbedding query = Inr a" and "getEmbedding val = Inr b"
    and "cosineSimilarity a b = Num s"
  shows "((similarity getEmbedding cosineSimilarity query val = Inr ''yes'') = (s > 0.81)) \<and>
         ((similarity getEmbedding cosineSimilarity query val = Inr ''no'') = (s \<le> 0.81))"
  using assms by (auto simp: similarity_def getSimilarity_def threshold_def)

theorem similarity_threshold_witness:
  "(demo_getEmbedding ''abc'' = Inr [3] \<and> demo_getEmbedding ''xy'' = Inr [2]) \<and>
   similarity demo_getEmbedding (\<lambda>a b. Num 0.81) ''abc'' ''xy'' = Inr ''no'' \<and>
   similarity demo_getEmbedding (\<lambda>a b. Num 0.82) ''abc'' ''xy'' = Inr ''yes''"
  using similarity_threshold [of demo_getEmbedding "''abc''" "[3]" "''xy''" "[2]" "\<lambda>a b. Num 0.81" "0.81"]
        similarity_threshold [of demo_getEmbedding "''abc''" "[3]" "''xy''" "[2]" "\<lambda>a b. Num 0.82" "0.82"]
  by (simp add: demo_getEmbedding_def)

subsection \<open>C8: storing into the cache\<close>

text \<open>
  Claim C8 fails for a query text that is already a key: the store holds
  \<open>capital of France?\<close> with the response \<open>Paris\<close>; after \<open>updateCache\<close> with the same
  query text and the response \<open>Lyon\<close>, the entry answers \<open>Lyon\<close>.
\<close>

theorem updateCache_overwrite_counterexample:
  "redis_get [(''capital of France?'', ''Paris'')] ''capital of France?'' = Some ''Paris'' \<and>
   redis_get (fst (updateCache True [(''capital of France?'', ''Paris'')] ''capital of France?'' ''Lyon''))
     ''capital of France?'' = Some ''Lyon''"
  by (simp add: updateCache_def redis_set_def redis_get_def)

text \<open>
  Claim C8 as the code has it: \<open>updateCache\<close> sets the entry whose key is the query
  text. Every entry under a different key, however close its text, keeps its response. When
  the write succeeds the query text answers the new response; a key that existed keeps its
  place and no second entry appears, a new key is added at the end. When the write fails the
  store is unchanged.
\<close>

theorem updateCache_frame:
  "(key \<noteq> query \<longrightarrow>
      redis_get (fst (updateCache set_ok store query resp)) key = redis_get store key) \<and>
   (set_ok \<longrightarrow> redis_get (fst (updateCache set_ok store query resp)) query = Some resp) \<and>
   (set_ok \<and> query \<in> set (redis_keys store) \<longrightarrow>
      redis_keys (fst (updateCache set_ok store query resp)) = redis_keys store) \<and>
   (set_ok \<and> query \<notin> set (redis_keys store) \<longrightarrow>
      redis_keys (fst (updateCache set_ok store query resp)) = redis_keys store @ [query]) \<and>
   (\<not> set_ok \<longrightarrow> fst (updateCache set_ok store query resp) = store)"
  by (simp add: updateCache_def redis_get_set redis_keys_set)

theorem updateCache_frame_witness:
  "(''a'' \<noteq> ''b'' \<and>
      redis_get (fst (updateCache True [(''a'', ''1'')] ''b'' ''2'')) ''a'' = Some ''1'' \<and>
      redis_get (fst (updateCache True [(''a'', ''1'')] ''b'' ''2'')) ''b'' = Some ''2'' \<and>
      ''b'' \<notin> set (redis_keys [(''a'', ''1'')]) \<and>
      redis_keys (fst (updateCache True [(''a'', ''1'')] ''b'' ''2'')) = [''a'', ''b'']) \<and>
   (''a'' \<in> set (redis_keys [(''a'', ''1'')]) \<and>
      redis_keys (fst (updateCache True [(''a'', ''1'')] ''a'' ''2'')) = [''a'']) \<and>
   (\<not> False \<and> fst (updateCache False [(''a'', ''1'')] ''b'' ''2'') = [(''a'', ''1'')])"
  using updateCache_frame [of "''a''" "''b''" True "[(''a'', ''1'')]" "''2''"]
        updateCache_frame [of "''b''" "''a''" True "[(''a'', ''1'')]" "''2''"]
        updateCache_frame [of "''a''" "''b''" False "[(''a'', ''1'')]" "''2''"]
  by (simp add: redis_keys_def redis_get_def)

subsection \<open>C7: a failed delivery\<close>

text \<open>
  Claim C7 fails on both sides. A rejection with the status 500, which has nothing to do
  with credentials, ends the process; a rejection without any response prints nothing.
\<close>

theorem sendMessage_exit_counterexample:
  "axios_post (demo_services (Some (AxiosError (Some 500))) always_pending)
      ''106540352242922'' ''353861234567'' ''Paris''
     = Some (AxiosError (Some 500)) \<and>
   exited (sendMessage (demo_services (Some (AxiosError (Some 500))) always_pending)
      ''353861234567'' ''106540352242922'' ''capital of France?'' ''353861234567'' ''Paris''
      empty_world) \<and>
   console (sendMessage (demo_services (Some (AxiosError None)) always_pending)
      ''353861234567'' ''106540352242922'' ''capital of France?'' ''353861234567'' ''Paris''
      empty_world) = []"
  by (simp add: sendMessage_def demo_services_def empty_world_def)

text \<open>
  Claim C7 as the code has it: when the delivery request is rejected, the handler looks
  only at whether the error carries a response. With a response of any status the failure is
  printed and \<open>process.exit()\<close> is called; without a response nothing is printed and the
  process goes on.
\<close>

theorem sendMessage_failure:
  assumes "axios_post sv phone_number_id sender message = Some err"
  shows "exited (sendMessage sv user_number_id phone_number_id user_question sender message w)
           = (exited w \<or> error_response err \<noteq> None) \<and>
         console (sendMessage sv user_number_id phone_number_id user_question sender message w)
           = console w @
             (if error_response err \<noteq> None
              then [''ERROR: Error occured while sending users message. Check WhatsApp number and API access token!'']
              else [])"
  using assms by (simp add: sendMessage_def Let_def)

theorem sendMessage_failure_witness:
  "axios_post (demo_services (Some (AxiosError (Some 401))) always_pending)
      ''106540352242922'' ''353861234567'' ''Paris'' = Some (AxiosError (Some 401)) \<and>
   exited (sendMessage (demo_services (Some (AxiosError (Some 401))) always_pending)
      ''353861234567'' ''106540352242922'' ''capital of France?'' ''353861234567'' ''Paris''
      empty_world) = True \<and>
   axios_post (demo_services (Some (AxiosError None)) always_pending)
      ''106540352242922'' ''353861234567'' ''Paris'' = Some (AxiosError None) \<and>
   exited (sendMessage (demo_services (Some (AxiosError None)) always_pending)
      ''353861234567'' ''106540352242922'' ''capital of France?'' ''353861234567'' ''Paris''
      empty_world) = False"
  using sendMessage_failure [of "demo_services (Some (AxiosError (Some 401))) always_pending"
          "''106540352242922''" "''353861234567''" "''Paris''" "AxiosError (Some 401)"
          "''353861234567''" "''capital of France?''" empty_world]
        sendMessage_failure [of "demo_services (Some (AxiosError None)) always_pending"
          "''106540352242922''" "''353861234567''" "''Paris''" "AxiosError None"
          "''353861234567''" "''capital of France?''" empty_world]
  by (simp add: demo_services_def empty_world_def)

subsection \<open>C9 and C10: the verification handshake\<close>

text \<open>
  Claim C9: the handler answers 200 with the challenge exactly when a token was supplied
  (present and not empty), it equals the configured secret, and the mode is \<open>subscribe\<close>;
  when mode and token are both supplied and the token differs from the secret, it answers
  403 whatever the mode.
\<close>

theorem webhook_get_verification:
  "((fst (webhook_get verify_token mode token challenge) = Some (Send 200 challenge))
      = (truthy token \<and> strict_eq token verify_token \<and> mode = Str ''subscribe'')) \<and>
   (truthy mode \<and> truthy token \<and> \<not> strict_eq token verify_token \<longrightarrow>
      fst (webhook_get verify_token mode token challenge) = Some (SendStatus 403))"
  by (auto simp: webhook_get_def)

theorem webhook_get_verification_witness:
  "(truthy (Str ''s3cret'') \<and> strict_eq (Str ''s3cret'') (Some ''s3cret'') \<and>
    fst (webhook_get (Some ''s3cret'') (Str ''subscribe'') (Str ''s3cret'') (Str ''1158201444''))
      = Some (Send 200 (Str ''1158201444''))) \<and>
   (truthy (Str ''subscribe'') \<and> truthy (Str ''guess'') \<and> \<not> strict_eq (Str ''guess'') (Some ''s3cret'') \<and>
    fst (webhook_get (Some ''s3cret'') (Str ''subscribe'') (Str ''guess'') (Str ''1158201444''))
      = Some (SendStatus 403)) \<and>
   (truthy (Str ''unsubscribe'') \<and>
    fst (webhook_get (Some ''s3cret'') (Str ''unsubscribe'') (Str ''guess'') (Str ''1158201444''))
      = Some (SendStatus 403))"
  using webhook_get_verification [of "Some ''s3cret''" "Str ''subscribe''" "Str ''s3cret''" "Str ''1158201444''"]
        webhook_get_verification [of "Some ''s3cret''" "Str ''subscribe''" "Str ''guess''" "Str ''1158201444''"]
        webhook_get_verification [of "Some ''s3cret''" "Str ''unsubscribe''" "Str ''guess''" "Str ''1158201444''"]
  by simp

text \<open>
  Claim C10: when the mode or the token is missing or empty, the handler sends no
  response at all and prints nothing.
\<close>

theorem webhook_get_silent:
  assumes "mode = Absent \<or> mode = Str [] \<or> token = Absent \<or> token = Str []"
  shows "webhook_get verify_token mode token challenge = (None, [])"
  using assms by (auto simp: webhook_get_def)

theorem webhook_get_silent_witness:
  "(Absent = Absent \<or> Absent = Str [] \<or> Str ''s3cret'' = Absent \<or> Str ''s3cret'' = Str []) \<and>
   webhook_get (Some ''s3cret'') Absent (Str ''s3cret'') (Str ''1158201444'') = (None, []) \<and>
   webhook_get (Some ''s3cret'') (Str ''subscribe'') (Str []) (Str ''1158201444'') = (None, [])"
  using webhook_get_silent [of Absent "Str ''s3cret''" "Some ''s3cret''" "Str ''1158201444''"]
        webhook_get_silent [of "Str ''subscribe''" "Str []" "Some ''s3cret''" "Str ''1158201444''"]
  by simp

subsection \<open>C6: the polling loop\<close>




subsection \<open>C3: the identity round trip\<close>

text \<open>
  Claim C3, second half, fails: which identifiers a stored handle answers for is decided
  by \<open>bcrypt.compareSync\<close> alone, and \<open>bcrypt\<close> reads only the first 72 bytes of an
  identifier. Take two different identifiers of 73 bytes that agree on the first 72. After
  the record of the first has been created on an empty table, the lookup of the second
  reports it as known: the two senders are taken for one.
\<close>

theorem identity_conflation_counterexample:
  "replicate 72 (CHR ''7'') @ ''A'' \<noteq> replicate 72 (CHR ''7'') @ ''B'' \<and>
   \<not> db_found (checkDatabase long_compareSync (replicate 72 (CHR ''7'') @ ''B'') []) \<and>
   updateDatabase [] (long_hashSync (replicate 72 (CHR ''7'') @ ''A'') saltRounds ''Nq1'') ''thread_1''
     = Inr [\<lparr>ID = replicate 72 (CHR ''7'') @ ''$Nq1'', thread_id = Some ''thread_1''\<rparr>] \<and>
   db_found (checkDatabase long_compareSync (replicate 72 (CHR ''7'') @ ''B'')
     [\<lparr>ID = replicate 72 (CHR ''7'') @ ''$Nq1'', thread_id = Some ''thread_1''\<rparr>])"
  by (simp add: checkDatabase_def updateDatabase_def long_hashSync_def long_compareSync_def)

text \<open>
  Claim C3 as the code has it. Let \<open>bcrypt\<close> verify \<open>raw\<close> against every hash made from
  it, whatever salt the hashing call generated, and let the lookup of \<open>raw\<close> miss. Then
  creating the record, as \<open>chatbot\<close> does with \<open>hashSync\<close> and \<open>updateDatabase\<close>, succeeds
  and adds one row, and the next lookup of \<open>raw\<close> reports it as known. For every other
  identifier the lookup after the creation reports known exactly when it did so before or
  \<open>compareSync\<close> accepts that identifier for the new handle: the new record changes the
  answer for those identifiers only that \<open>bcrypt\<close> does not tell apart from \<open>raw\<close>. Nothing
  is said here about the thread handle a lookup returns (see C1).
\<close>

theorem identity_round_trip:
  assumes verify: "\<forall>s. compareSync raw (hashSync raw saltRounds s)"
    and miss: "\<not> db_found (checkDatabase compareSync raw table)"
  shows "updateDatabase table (hashSync raw saltRounds salt) thread
           = Inr (table @ [\<lparr>ID = hashSync raw saltRounds salt, thread_id = Some thread\<rparr>]) \<and>
         db_found (checkDatabase compareSync raw
           (table @ [\<lparr>ID = hashSync raw saltRounds salt, thread_id = Some thread\<rparr>])) \<and>
         (\<forall>other.
            db_found (checkDatabase compareSync other
              (table @ [\<lparr>ID = hashSync raw saltRounds salt, thread_id = Some thread\<rparr>]))
            = (db_found (checkDatabase compareSync other table) \<or>
               compareSync other (hashSync raw saltRounds salt)))"
proof -
  from verify have v: "compareSync raw (hashSync raw saltRounds salt)"
    by blast
  have "hashSync raw saltRounds salt \<notin> ID ` set table"
  proof
    assume "hashSync raw saltRounds salt \<in> ID ` set table"
    then obtain u where u: "u \<in> set table" "ID u = hashSync raw saltRounds salt"
      by auto
    with v have "compareSync raw (ID u)" by simp
    with u(1) have "\<exists>u \<in> set table. compareSync raw (ID u)"
      by blast
    with miss show False by (simp add: checkDatabase_found)
  qed
  then have created: "updateDatabase table (hashSync raw saltRounds salt) thread
           = Inr (table @ [\<lparr>ID = hashSync raw saltRounds salt, thread_id = Some thread\<rparr>])"
    by (simp add: updateDatabase_def)
  have known: "db_found (checkDatabase compareSync raw
           (table @ [\<lparr>ID = hashSync raw saltRounds salt, thread_id = Some thread\<rparr>]))"
    using v by (simp add: checkDatabase_found_append)
  have others: "\<forall>other.
            db_found (checkDatabase compareSync other
              (table @ [\<lparr>ID = hashSync raw saltRounds salt, thread_id = Some thread\<rparr>]))
            = (db_found (checkDatabase compareSync other table) \<or>
               compareSync other (hashSync raw saltRounds salt))"
    by (simp add: checkDatabase_found_append)
  from created known others show ?thesis by blast
qed

text \<open>
  The round trip for the sender \<open>353861234567\<close> on a table that holds the record of
  \<open>447700900123\<close>: the sender is known afterwards, and so is the other one as before.
\<close>

theorem identity_round_trip_witness:
  "(\<forall>s. demo_compareSync ''353861234567'' (demo_hashSync ''353861234567'' saltRounds s)) \<and>
   \<not> db_found (checkDatabase demo_compareSync ''353861234567''
        [\<lparr>ID = ''447700900123$Zz9'', thread_id = Some ''thread_0''\<rparr>]) \<and>
   updateDatabase [\<lparr>ID = ''447700900123$Zz9'', thread_id = Some ''thread_0''\<rparr>]
        (demo_hashSync ''353861234567'' saltRounds ''Nq1'') ''thread_1''
     = Inr [\<lparr>ID = ''447700900123$Zz9'', thread_id = Some ''thread_0''\<rparr>,
            \<lparr>ID = ''353861234567$Nq1'', thread_id = Some ''thread_1''\<rparr>] \<and>
   db_found (checkDatabase demo_compareSync ''353861234567''
        [\<lparr>ID = ''447700900123$Zz9'', thread_id = Some ''thread_0''\<rparr>,
         \<lparr>ID = ''353861234567$Nq1'', thread_id = Some ''thread_1''\<rparr>]) \<and>
   db_found (checkDatabase demo_compareSync ''447700900123''
        [\<lparr>ID = ''447700900123$Zz9'', thread_id = Some ''thread_0''\<rparr>,
         \<lparr>ID = ''353861234567$Nq1'', thread_id = Some ''thread_1''\<rparr>]) \<and>
   \<not> db_found (checkDatabase demo_compareSync ''15550001111''
        [\<lparr>ID = ''447700900123$Zz9'', thread_id = Some ''thread_0''\<rparr>,
         \<lparr>ID = ''353861234567$Nq1'', thread_id = Some ''thread_1''\<rparr>])"
proof -
  have verify: "\<forall>s. demo_compareSync ''353861234567'' (demo_hashSync ''353861234567'' saltRounds s)"
    by (simp add: demo_verify)
  have miss: "\<not> db_found (checkDatabase demo_compareSync ''353861234567''
        [\<lparr>ID = ''447700900123$Zz9'', thread_id = Some ''thread_0''\<rparr>])"
    by (simp add: checkDatabase_def demo_compareSync_def)
  have hash: "demo_hashSync ''353861234567'' saltRounds ''Nq1'' = ''353861234567$Nq1''"
    by (simp add: demo_hashSync_def)
  note rt = identity_round_trip [where compareSync = demo_compareSync
      and hashSync = demo_hashSync and raw = "''353861234567''"
      and table = "[\<lparr>ID = ''447700900123$Zz9'', thread_id = Some ''thread_0''\<rparr>]"
      and salt = "''Nq1''" and thread = "''thread_1''", OF verify miss,
      unfolded hash append_Cons append_Nil]
  have created: "updateDatabase [\<lparr>ID = ''447700900123$Zz9'', thread_id = Some ''thread_0''\<rparr>]
        (demo_hashSync ''353861234567'' saltRounds ''Nq1'') ''thread_1''
     = Inr [\<lparr>ID = ''447700900123$Zz9'', thread_id = Some ''thread_0''\<rparr>,
            \<lparr>ID = ''353861234567$Nq1'', thread_id = Some ''thread_1''\<rparr>]"
    unfolding hash using rt by blast
  have known: "db_found (checkDatabase demo_compareSync ''353861234567''
        [\<lparr>ID = ''447700900123$Zz9'', thread_id = Some ''thread_0''\<rparr>,
         \<lparr>ID = ''353861234567$Nq1'', thread_id = Some ''thread_1''\<rparr>])"
    using rt by blast
  have before1: "db_found (checkDatabase demo_compareSync ''447700900123''
        [\<lparr>ID = ''447700900123$Zz9'', thread_id = Some ''thread_0''\<rparr>])"
    by (simp add: checkDatabase_def demo_compareSync_def)
  have before2: "\<not> db_found (checkDatabase demo_compareSync ''15550001111''
        [\<lparr>ID = ''447700900123$Zz9'', thread_id = Some ''thread_0''\<rparr>])"
    by (simp add: checkDatabase_def demo_compareSync_def)
  have no2: "\<not> demo_compareSync ''15550001111'' ''353861234567$Nq1''"
    by (simp add: demo_compareSync_def)
  have other1: "db_found (checkDatabase demo_compareSync ''447700900123''
        [\<lparr>ID = ''447700900123$Zz9'', thread_id = Some ''thread_0''\<rparr>,
         \<lparr>ID = ''353861234567$Nq1'', thread_id = Some ''thread_1''\<rparr>])"
    using rt before1 by blast
  have other2: "\<not> db_found (checkDatabase demo_compareSync ''15550001111''
        [\<lparr>ID = ''447700900123$Zz9'', thread_id = Some ''thread_0''\<rparr>,
         \<lparr>ID = ''353861234567$Nq1'', thread_id = Some ''thread_1''\<rparr>])"
    using rt before2 no2 by blast
  from verify miss created known other1 other2 show ?thesis by blast
qed

subsection \<open>C5: vectors of zero magnitude\<close>

text \<open>
  Claim C5, for the package as the specification describes it: when one of the two
  embedding vectors has zero magnitude, the score is the number 0 (no \<open>NaN\<close> and no
  rejection comes out of the division, which is not carried out), and \<open>similarity\<close>
  answers \<open>"no"\<close>.
\<close>

theorem zero_magnitude_not_similar:
  assumes "magnitude a = 0 \<or> magnitude b = 0"
    and "getEmbedding query = Inr a" and "getEmbedding val = Inr b"
  shows "getSimilarity spec_cosineSimilarity a b = Num 0 \<and>
         similarity getEmbedding spec_cosineSimilarity query val = Inr ''no''"
  using assms
  by (auto simp: similarity_def getSimilarity_def spec_cosineSimilarity_def threshold_def)

theorem zero_magnitude_not_similar_witness:
  "(magnitude [0, 0] = 0 \<or> magnitude [3, 4] = 0) \<and>
   getSimilarity spec_cosineSimilarity [0, 0] [3, 4] = Num 0 \<and>
   similarity (\<lambda>input. if input = ''abc'' then Inr [0, 0] else Inr [3, 4])
     spec_cosineSimilarity ''abc'' ''xy'' = Inr ''no'' \<and>
   similarity (\<lambda>input. if input = ''abc'' then Inr [0, 0] else Inr [3, 4])
     spec_cosineSimilarity ''xy'' ''abc'' = Inr ''no''"
proof -
  have m: "magnitude [0, 0] = 0" by (simp add: magnitude_def)
  note z1 = zero_magnitude_not_similar [of "[0, 0]" "[3, 4]"
      "\<lambda>input. if input = ''abc'' then Inr [0, 0] else Inr [3, 4]" "''abc''" "''xy''"]
  note z2 = zero_magnitude_not_similar [of "[3, 4]" "[0, 0]"
      "\<lambda>input. if input = ''abc'' then Inr [0, 0] else Inr [3, 4]" "''xy''" "''abc''"]
  from m z1 z2 show ?thesis by simp
qed

end
